theory Spec2Isabelle
  imports Complex_Main
begin

section \<open>Numbers, truthiness and rounding\<close>

text \<open>
  The handlers are TypeScript route handlers working on parsed JSON bodies. A JSON number is
  modelled as an exact rational (\<^typ>\<open>rat\<close>): the formulas of the source are evaluated
  without the rounding error of IEEE doubles, and a division by a value of the request, where
  a zero divisor would give \<open>Infinity\<close> or \<open>NaN\<close>, is made explicit by \<open>js_div\<close> below.
  A field of the body is an \<open>option\<close>: \<open>None\<close> is an absent field (\<open>undefined\<close>).
  A field holds a value of the type its TypeScript declaration gives it: a number, a string
  or a boolean. The enumerated fields (\<open>gender\<close>, \<open>activity_level\<close>, \<open>macro_focus\<close>) are
  strings, and the two constant tables are read by their own keys: a property name that an
  object literal inherits from \<open>Object.prototype\<close> is not a value of these fields.
\<close>

definition falsy_num :: "rat option \<Rightarrow> bool" where
  \<comment> \<open>\<open>!x\<close> for a number field: absent or zero.\<close>
  "falsy_num x = (x = None \<or> x = Some 0)"

definition falsy_str :: "string option \<Rightarrow> bool" where
  \<comment> \<open>\<open>!x\<close> for a string field: absent or the empty string.\<close>
  "falsy_str x = (x = None \<or> x = Some [])"

definition Math_round :: "rat \<Rightarrow> int" where
  \<comment> \<open>\<open>Math.round\<close>: the nearest integer, a tie going up.\<close>
  "Math_round x = \<lfloor>x + 1 / 2\<rfloor>"

definition Math_abs :: "rat \<Rightarrow> rat" where
  "Math_abs x = \<bar>x\<bar>"

definition js_div :: "rat \<Rightarrow> rat \<Rightarrow> rat option" where
  \<comment> \<open>\<open>a / b\<close>: a zero divisor gives \<open>Infinity\<close> or \<open>NaN\<close> in the source, \<open>None\<close> here.\<close>
  "js_div a b = (if b = 0 then None else Some (a / b))"

section \<open>Goal Calculator\<close>

record goal_body =
  gender :: "string option"
  birth_year :: "rat option"
  weight_kg :: "rat option"
  height_cm :: "rat option"
  activity_level :: "string option"
  goal_type :: "string option"
  goal_weight_kg :: "rat option"
  goal_weeks :: "rat option"
  macro_focus :: "string option"

record preset =
  protein :: rat
  carbs :: rat
  fat :: rat

definition ACTIVITY_MULTIPLIERS :: "string \<Rightarrow> rat option" where
  \<comment> \<open>\<open>ACTIVITY_MULTIPLIERS[activity_level]\<close>, \<open>None\<close> for \<open>undefined\<close>\<close>
  "ACTIVITY_MULTIPLIERS = map_of
     [(''sedentario'', 1.2),
      (''levemente_ativo'', 1.375),
      (''moderadamente_ativo'', 1.55),
      (''muito_ativo'', 1.725),
      (''super_ativo'', 1.9)]"

definition MACRO_PRESETS :: "string \<Rightarrow> preset option" where
  "MACRO_PRESETS = map_of
     [(''equilibrado'', \<lparr>protein = 30, carbs = 50, fat = 20\<rparr>),
      (''perda_gordura'', \<lparr>protein = 35, carbs = 40, fat = 25\<rparr>),
      (''ganho_massa'', \<lparr>protein = 35, carbs = 45, fat = 20\<rparr>),
      (''baixo_carb'', \<lparr>protein = 30, carbs = 30, fat = 40\<rparr>),
      (''cetogenico'', \<lparr>protein = 25, carbs = 5, fat = 70\<rparr>)]"

definition macros_percent_of :: "string option \<Rightarrow> preset" where
  \<comment> \<open>\<open>MACRO_PRESETS[macro_focus] || MACRO_PRESETS.equilibrado\<close>\<close>
  "macros_percent_of mf =
     (case mf of
        None \<Rightarrow> \<lparr>protein = 30, carbs = 50, fat = 20\<rparr>
      | Some k \<Rightarrow> (case MACRO_PRESETS k of
                    None \<Rightarrow> \<lparr>protein = 30, carbs = 50, fat = 20\<rparr>
                  | Some p \<Rightarrow> p))"

text \<open>
  The warnings are template strings in the source. A constructor stands for each template and
  carries the value the template interpolates:
  \<^item> \<open>RateTooFast v\<close>: "Taxa de mudanca de peso muito rapida (v kg/semana). Recomendado: ..."
  \<^item> \<open>RateTooSlow v\<close>: "Taxa de mudanca de peso muito lenta (v kg/semana). Considere ..."
  \<^item> \<open>CalorieMin m\<close>: "Calorias ajustadas para o minimo seguro (m kcal/dia)"
  \<^item> \<open>CalorieMax m\<close>: "Calorias ajustadas para o maximo recomendado (m kcal/dia)"
  \<^item> \<open>BmiBelow\<close>: "IMC meta esta abaixo do peso saudavel (< 18.5). Consulte um nutricionista."
  \<^item> \<open>BmiAbove\<close>: "IMC meta esta acima do peso saudavel (> 30). Considere uma meta intermediaria."
\<close>

datatype warning =
    RateTooFast rat
  | RateTooSlow rat
  | CalorieMin int
  | CalorieMax int
  | BmiBelow
  | BmiAbove

definition tmb_of :: "string \<Rightarrow> rat \<Rightarrow> rat \<Rightarrow> rat \<Rightarrow> rat" where
  \<comment> \<open>Mifflin-St Jeor, the variable \<open>tmb\<close>.\<close>
  "tmb_of g w h a =
     (if g = ''masculino'' then (10 * w) + (6.25 * h) - (5 * a) + 5
      else (10 * w) + (6.25 * h) - (5 * a) - 161)"

definition min_calories_of :: "string \<Rightarrow> int" where
  "min_calories_of g = (if g = ''masculino'' then 1500 else 1200)"

definition max_calories :: int where
  "max_calories = 5000"

definition clamp_calories :: "string \<Rightarrow> int \<Rightarrow> int \<times> warning option" where
  \<comment> \<open>The safety limits: the clamped \<open>daily_calories\<close> and \<open>calorie_warning\<close>
     (\<open>None\<close> is the empty string).\<close>
  "clamp_calories g dc =
     (if dc < min_calories_of g then (min_calories_of g, Some (CalorieMin (min_calories_of g)))
      else if dc > max_calories then (max_calories, Some (CalorieMax max_calories))
      else (dc, None))"

definition rate_warnings :: "rat \<Rightarrow> warning list" where
  "rate_warnings kg_per_week =
     (if Math_abs kg_per_week > 1 then [RateTooFast (Math_abs kg_per_week)]
      else if Math_abs kg_per_week < 0.25 then [RateTooSlow (Math_abs kg_per_week)]
      else [])"

definition calorie_warnings :: "warning option \<Rightarrow> warning list" where
  \<comment> \<open>\<open>if (calorie_warning) warnings.push(calorie_warning)\<close>\<close>
  "calorie_warnings cw = (case cw of None \<Rightarrow> [] | Some x \<Rightarrow> [x])"

definition bmi_warnings :: "rat \<Rightarrow> warning list" where
  "bmi_warnings bmi_goal =
     (if bmi_goal < 18.5 then [BmiBelow]
      else if bmi_goal > 30 then [BmiAbove]
      else [])"

definition getBMICategory :: "rat \<Rightarrow> string" where
  "getBMICategory bmi =
     (if bmi < 18.5 then ''Abaixo do peso''
      else if bmi < 25 then ''Peso normal''
      else if bmi < 30 then ''Sobrepeso''
      else ''Obesidade'')"

record macro_entry =
  grams :: rat
  percent :: rat
  calories :: int

record macros_rec =
  protein_macro :: macro_entry
  carbs_macro :: macro_entry
  fat_macro :: macro_entry

definition macros_of :: "int \<Rightarrow> preset \<Rightarrow> macros_rec" where
  \<comment> \<open>The macronutrient block of the response, from the clamped \<open>daily_calories\<close>.\<close>
  "macros_of daily_calories macros_percent =
     (let protein_calories = of_int daily_calories * (protein macros_percent / 100);
          carbs_calories = of_int daily_calories * (carbs macros_percent / 100);
          fat_calories = of_int daily_calories * (fat macros_percent / 100);
          protein_grams = protein_calories / 4;
          carbs_grams = carbs_calories / 4;
          fat_grams = fat_calories / 9
      in \<lparr>protein_macro =
            \<lparr>grams = of_int (Math_round (protein_grams * 10)) / 10,
             percent = protein macros_percent,
             calories = Math_round protein_calories\<rparr>,
          carbs_macro =
            \<lparr>grams = of_int (Math_round (carbs_grams * 10)) / 10,
             percent = carbs macros_percent,
             calories = Math_round carbs_calories\<rparr>,
          fat_macro =
            \<lparr>grams = of_int (Math_round (fat_grams * 10)) / 10,
             percent = fat macros_percent,
             calories = Math_round fat_calories\<rparr>\<rparr>)"

definition trunc :: "rat \<Rightarrow> int" where
  "trunc x = (if x \<ge> 0 then \<lfloor>x\<rfloor> else \<lceil>x\<rceil>)"

definition completion_day :: "int \<Rightarrow> rat \<Rightarrow> int option" where
  \<comment> \<open>\<open>new Date(Date.now() + goal_weeks * 7 * 24 * 60 * 60 * 1000).toISOString().split('T')[0]\<close>:
     a time value beyond 8.64e15 ms is an invalid date, on which \<open>toISOString\<close> throws
     (\<open>None\<close>); the date of a valid one is given as its day number since the epoch.\<close>
  "completion_day now weeks =
     (let t = of_int now + weeks * 7 * 24 * 60 * 60 * 1000
      in if \<bar>t\<bar> > 8640000000000000 then None
         else Some (trunc t div 86400000))"

record calculations =
  age :: rat
  bmi_current :: rat
  bmi_current_category :: string
  bmi_goal :: rat
  bmi_goal_category :: string
  tmb :: int
  tdee :: int
  weight_change_kg :: rat
  kg_per_week :: rat
  goal_type_calc :: string
  daily_calories_calc :: int
  calorie_adjustment :: int
  macros :: macros_rec
  warnings :: "warning list"
  estimated_completion_date :: int

datatype goal_failure =
    MissingRequired    \<comment> \<open>"Campos obrigatorios faltando: gender, birth_year, ..."\<close>
  | MissingGoal        \<comment> \<open>"Campos de meta faltando: goal_weight_kg, goal_weeks"\<close>
  | MinimumAge         \<comment> \<open>"Idade minima e 13 anos"\<close>
  | InvalidActivity    \<comment> \<open>"Nivel de atividade invalido"\<close>
  | CalculationError   \<comment> \<open>the \<open>catch\<close> block: "Erro ao calcular metas"\<close>

datatype goal_response =
    Rejected nat goal_failure   \<comment> \<open>an error body with its HTTP status\<close>
  | Computed calculations       \<comment> \<open>status 200, \<open>success: true\<close>\<close>
  | NonFinite                   \<comment> \<open>a division by zero was evaluated\<close>

definition goal_type_of :: "rat \<Rightarrow> string" where
  "goal_type_of weight_change =
     (if weight_change > 0 then ''ganhar''
      else if weight_change < 0 then ''perder''
      else ''manter'')"

definition calculate ::
  "int \<Rightarrow> string \<Rightarrow> rat \<Rightarrow> rat \<Rightarrow> rat \<Rightarrow> string \<Rightarrow> rat \<Rightarrow> rat \<Rightarrow> string option \<Rightarrow> goal_response" where
  \<comment> \<open>The body of the goal handler from the BMI computation on.\<close>
  "calculate now g a w h al gw weeks mf =
     (let height_m = h / 100 in
      case js_div w (height_m * height_m) of
        None \<Rightarrow> NonFinite
      | Some bmi_cur \<Rightarrow>
     (case js_div gw (height_m * height_m) of
        None \<Rightarrow> NonFinite
      | Some bmi_g \<Rightarrow>
     (let tmb_v = tmb_of g w h a in
      case ACTIVITY_MULTIPLIERS al of
        None \<Rightarrow> Rejected 400 InvalidActivity
      | Some multiplier \<Rightarrow>
     (let tdee_v = tmb_v * multiplier;
          weight_change = gw - w in
      case js_div weight_change weeks of
        None \<Rightarrow> NonFinite
      | Some kpw \<Rightarrow>
     (let calorie_adjustment_per_day = (kpw * 7700) / 7;
          clamped = clamp_calories g (Math_round (tdee_v + calorie_adjustment_per_day));
          daily = fst clamped;
          calorie_warning = snd clamped;
          macros_percent = macros_percent_of mf;
          ws = rate_warnings kpw @ calorie_warnings calorie_warning @ bmi_warnings bmi_g
      in case completion_day now weeks of
           None \<Rightarrow> Rejected 500 CalculationError
         | Some day \<Rightarrow>
             Computed
               \<lparr>age = a,
                bmi_current = of_int (Math_round (bmi_cur * 10)) / 10,
                bmi_current_category = getBMICategory bmi_cur,
                bmi_goal = of_int (Math_round (bmi_g * 10)) / 10,
                bmi_goal_category = getBMICategory bmi_g,
                tmb = Math_round tmb_v,
                tdee = Math_round tdee_v,
                weight_change_kg = of_int (Math_round (weight_change * 10)) / 10,
                kg_per_week = of_int (Math_round (kpw * 100)) / 100,
                goal_type_calc = goal_type_of weight_change,
                daily_calories_calc = daily,
                calorie_adjustment = Math_round calorie_adjustment_per_day,
                macros = macros_of daily macros_percent,
                warnings = ws,
                estimated_completion_date = day\<rparr>)))))"

definition POST_goals :: "int \<Rightarrow> int \<Rightarrow> goal_body \<Rightarrow> goal_response" where
  \<comment> \<open>The goal handler: \<open>now\<close> is \<open>Date.now()\<close>, \<open>currentYear\<close> is
     \<open>new Date().getFullYear()\<close>.\<close>
  "POST_goals now currentYear body =
     (if falsy_str (gender body) \<or> falsy_num (birth_year body) \<or> falsy_num (weight_kg body)
         \<or> falsy_num (height_cm body) \<or> falsy_str (activity_level body)
      then Rejected 400 MissingRequired
      else if falsy_num (goal_weight_kg body) \<or> falsy_num (goal_weeks body)
      then Rejected 400 MissingGoal
      else
        let a = of_int currentYear - the (birth_year body) in
        if a < 13 then Rejected 400 MinimumAge
        else calculate now (the (gender body)) a (the (weight_kg body)) (the (height_cm body))
               (the (activity_level body)) (the (goal_weight_kg body)) (the (goal_weeks body))
               (macro_focus body))"

subsection \<open>Predicates on the warnings list\<close>







subsection \<open>Sample requests of the Goal Calculator\<close>



definition keto_body :: goal_body where
  "keto_body =
     \<lparr>gender = Some ''masculino'', birth_year = Some 1994, weight_kg = Some 70,
      height_cm = Some 175, activity_level = Some ''sedentario'', goal_type = Some ''ganhar'',
      goal_weight_kg = Some 70.86, goal_weeks = Some 44, macro_focus = Some ''cetogenico''\<rparr>"

definition keto_result :: calculations where
  "keto_result =
     \<lparr>age = 30, bmi_current = 22.9, bmi_current_category = ''Peso normal'',
      bmi_goal = 23.1, bmi_goal_category = ''Peso normal'', tmb = 1649, tdee = 1979,
      weight_change_kg = 0.9, kg_per_week = 0.02, goal_type_calc = ''ganhar'',
      daily_calories_calc = 2000, calorie_adjustment = 22,
      macros =
        \<lparr>protein_macro = \<lparr>grams = 125, percent = 25, calories = 500\<rparr>,
         carbs_macro = \<lparr>grams = 25, percent = 5, calories = 100\<rparr>,
         fat_macro = \<lparr>grams = 155.6, percent = 70, calories = 1400\<rparr>\<rparr>,
      warnings = [RateTooSlow (43 / 2200)], estimated_completion_date = 20183\<rparr>"



section \<open>Profile Store\<close>

text \<open>
  The body of a profile write has the fields of the goal body and nine more. The stored
  \<open>UserProfile\<close> object has the same keys, so one record type serves for both; the store is the
  module-level \<open>Map\<close> from user id to profile.
\<close>

record profile_body = goal_body +
  user_id :: "string option"
  daily_calories :: "rat option"
  protein_percent :: "rat option"
  carbs_percent :: "rat option"
  fat_percent :: "rat option"
  protein_grams :: "rat option"
  carbs_grams :: "rat option"
  fat_grams :: "rat option"
  notifications_enabled :: "bool option"

















section \<open>Vision Analyzer\<close>

text \<open>
  Two files hold a handler of the vision analysis: \<open>src/unnamed/part_000\<close>, with the check of
  an empty answer and the classification of upstream errors, and \<open>src/unnamed/part_001\<close>,
  without them. The call of the model is outside the program: its outcome is an input of the
  model, either a completion or a thrown value. \<open>JSON.parse\<close> and the truthiness of a field of
  the parsed object are parameters too. Strings are byte strings; the whitespace that \<open>trim\<close>
  removes is taken within ASCII.
\<close>

record choice =
  content :: "string option"     \<comment> \<open>\<open>message.content\<close>, \<open>None\<close> for \<open>null\<close>\<close>
  finish_reason :: string

record 'u completion =
  model :: string
  choices :: "choice list"
  usage :: "'u option"

datatype thrown =
    Error string      \<comment> \<open>an instance of \<open>Error\<close> with its message\<close>
  | NotAnError        \<comment> \<open>any other thrown value\<close>

datatype 'u call_outcome =
    Returned "'u completion"
  | Threw thrown

record 'j json_env =
  JSON_parse :: "string \<Rightarrow> string + 'j"     \<comment> \<open>\<open>Inl\<close>: the message of the \<open>SyntaxError\<close>\<close>
  truthy_field :: "'j \<Rightarrow> string \<Rightarrow> bool"       \<comment> \<open>\<open>!!obj[key]\<close>\<close>
  type_error_message :: string               \<comment> \<open>the message of reading \<open>choices[0].message\<close>
                                                  when there is no choice\<close>

datatype ('u, 'j) analyze_body =
    ImageRequired                          \<comment> \<open>'Campo "image" e obrigatorio'\<close>
  | EmptyResponse string string "'u option"
      \<comment> \<open>"A analise nao pode ser concluida", with \<open>debug\<close>: model, finish reason, usage\<close>
  | InvalidAnalysis 'j                     \<comment> \<open>"Resposta invalida da analise", \<open>raw_response\<close>\<close>
  | AuthError                              \<comment> \<open>"Erro de autenticacao com OpenAI"\<close>
  | RateLimit                              \<comment> \<open>"Limite de requisicoes atingido"\<close>
  | QuotaExceeded                          \<comment> \<open>"Creditos esgotados"\<close>
  | GenericError string                    \<comment> \<open>"Ocorreu um erro ao analisar a imagem.", details\<close>
  | Analysis 'j                            \<comment> \<open>the parsed analysis, status 200\<close>

fun starts_with :: "string \<Rightarrow> string \<Rightarrow> bool" where
  "starts_with s [] = True"
| "starts_with [] (p # ps) = False"
| "starts_with (c # cs) (p # ps) = (c = p \<and> starts_with cs ps)"

fun js_includes :: "string \<Rightarrow> string \<Rightarrow> bool" where
  \<comment> \<open>\<open>s.includes(p)\<close>\<close>
  "js_includes [] p = (p = [])"
| "js_includes (c # cs) p = (starts_with (c # cs) p \<or> js_includes cs p)"

definition is_whitespace :: "char \<Rightarrow> bool" where
  "is_whitespace c = (c \<in> {CHR 0x09, CHR 0x0A, CHR 0x0B, CHR 0x0C, CHR 0x0D, CHR '' ''})"

definition trim_is_empty :: "string \<Rightarrow> bool" where
  \<comment> \<open>\<open>s.trim() === ''\<close>\<close>
  "trim_is_empty s = list_all is_whitespace s"

definition is_auth_message :: "string \<Rightarrow> bool" where
  "is_auth_message msg = (js_includes msg ''401'' \<or> js_includes msg ''Unauthorized'')"

definition is_rate_message :: "string \<Rightarrow> bool" where
  "is_rate_message msg = (js_includes msg ''429'' \<or> js_includes msg ''Rate limit'')"

definition is_quota_message :: "string \<Rightarrow> bool" where
  "is_quota_message msg = (js_includes msg ''quota'' \<or> js_includes msg ''insufficient_quota'')"

definition catch_classified :: "thrown \<Rightarrow> nat \<times> ('u, 'j) analyze_body" where
  \<comment> \<open>The \<open>catch\<close> block of \<open>part_000\<close>.\<close>
  "catch_classified e =
     (case e of
        Error msg \<Rightarrow>
          if is_auth_message msg then (500, AuthError)
          else if is_rate_message msg then (429, RateLimit)
          else if is_quota_message msg then (500, QuotaExceeded)
          else (500, GenericError msg)
      | NotAnError \<Rightarrow> (500, GenericError ''Erro desconhecido''))"

definition catch_generic :: "thrown \<Rightarrow> nat \<times> ('u, 'j) analyze_body" where
  \<comment> \<open>The \<open>catch\<close> block of \<open>part_001\<close>.\<close>
  "catch_generic e =
     (case e of
        Error msg \<Rightarrow> (500, GenericError msg)
      | NotAnError \<Rightarrow> (500, GenericError ''Erro desconhecido''))"

definition is_empty_content :: "string option \<Rightarrow> bool" where
  \<comment> \<open>\<open>!content || content.trim() === '' || content === '{}'\<close>\<close>
  "is_empty_content c =
     (case c of None \<Rightarrow> True | Some s \<Rightarrow> s = [] \<or> trim_is_empty s \<or> s = ''{}'')"

definition POST_analyze ::
  "'j json_env \<Rightarrow> string option \<Rightarrow> 'u call_outcome \<Rightarrow> nat \<times> ('u, 'j) analyze_body" where
  \<comment> \<open>The handler of \<open>part_000\<close>: the \<open>image\<close> field of the body and the outcome of the call.\<close>
  "POST_analyze env image_url outcome =
     (if falsy_str image_url then (400, ImageRequired)
      else case outcome of
        Threw e \<Rightarrow> catch_classified e
      | Returned response \<Rightarrow>
          (case choices response of
             [] \<Rightarrow> catch_classified (Error (type_error_message env))
           | first # _ \<Rightarrow>
               if is_empty_content (content first)
               then (500, EmptyResponse (model response) (finish_reason first) (usage response))
               else (case JSON_parse env (the (content first)) of
                       Inl msg \<Rightarrow> catch_classified (Error msg)
                     | Inr analysisResult \<Rightarrow>
                         if \<not> truthy_field env analysisResult ''calorias_totais''
                            \<and> \<not> truthy_field env analysisResult ''nome_do_prato''
                         then (500, InvalidAnalysis analysisResult)
                         else (200, Analysis analysisResult))))"

definition POST_analyze_part_001 ::
  "'j json_env \<Rightarrow> string option \<Rightarrow> 'u call_outcome \<Rightarrow> nat \<times> ('u, 'j) analyze_body" where
  \<comment> \<open>The handler of \<open>part_001\<close>: \<open>JSON.parse(content || '{}')\<close>, returned as it is.\<close>
  "POST_analyze_part_001 env image_url outcome =
     (if falsy_str image_url then (400, ImageRequired)
      else case outcome of
        Threw e \<Rightarrow> catch_generic e
      | Returned response \<Rightarrow>
          (case choices response of
             [] \<Rightarrow> catch_generic (Error (type_error_message env))
           | first # _ \<Rightarrow>
               (case JSON_parse env (if falsy_str (content first) then ''{}''
                                     else the (content first)) of
                  Inl msg \<Rightarrow> catch_generic (Error msg)
                | Inr analysisResult \<Rightarrow> (200, Analysis analysisResult))))"

text \<open>
  A sample environment for concrete runs: parsed values are lists of keys with a truthy
  value, and the parser knows the empty object only.
\<close>

definition sample_env :: "string list json_env" where
  "sample_env =
     \<lparr>JSON_parse = (\<lambda>s. if s = ''{}'' then Inr [] else Inl ''Unexpected end of JSON input''),
      truthy_field = (\<lambda>obj key. key \<in> set obj),
      type_error_message = ''Cannot read properties of undefined''\<rparr>"

definition empty_object_completion :: "nat completion" where
  "empty_object_completion =
     \<lparr>model = ''gpt-4o'',
      choices = [\<lparr>content = Some ''{}'', finish_reason = ''length''\<rparr>],
      usage = Some 1200\<rparr>"

section \<open>Goal Calculator: what a computed response contains\<close>

lemma post_goals_computed:
  assumes "POST_goals now yr b = Computed c"
  obtains g y w h al gw n where
    "gender b = Some g" "g \<noteq> []" "birth_year b = Some y" "weight_kg b = Some w" "w \<noteq> 0"
    "height_cm b = Some h" "h \<noteq> 0" "activity_level b = Some al"
    "goal_weight_kg b = Some gw" "goal_weeks b = Some n" "n \<noteq> 0"
    "\<not> of_int yr - y < 13"
    "calculate now g (of_int yr - y) w h al gw n (macro_focus b) = Computed c"
  using assms
  by (auto simp: POST_goals_def falsy_num_def falsy_str_def Let_def split: if_splits)

lemma calculate_computed:
  assumes "calculate now g a w h al gw n mf = Computed c"
  obtains m day where
    "h \<noteq> 0" "n \<noteq> 0" "ACTIVITY_MULTIPLIERS al = Some m" "completion_day now n = Some day"
    "tmb c = Math_round (tmb_of g w h a)"
    "tdee c = Math_round (tmb_of g w h a * m)"
    "daily_calories_calc c =
       fst (clamp_calories g (Math_round (tmb_of g w h a * m + ((gw - w) / n * 7700) / 7)))"
    "warnings c = rate_warnings ((gw - w) / n)
       @ calorie_warnings
           (snd (clamp_calories g (Math_round (tmb_of g w h a * m + ((gw - w) / n * 7700) / 7))))
       @ bmi_warnings (gw / (h / 100 * (h / 100)))"
    "goal_type_calc c = goal_type_of (gw - w)"
    "macros c = macros_of (daily_calories_calc c) (macros_percent_of mf)"
  using assms
  by (auto simp: calculate_def js_div_def Let_def split: if_splits option.splits)


lemma floor_rat_numeral_quotient [simp]:
  "\<lfloor>(numeral a / numeral b :: rat)\<rfloor> = numeral a div numeral b"
  using floor_divide_of_int_eq [of "numeral a" "numeral b", where ?'a = rat] by simp

lemma floor_rat_neg_numeral_quotient [simp]:
  "\<lfloor>- (numeral a / numeral b :: rat)\<rfloor> = - numeral a div numeral b"
  using floor_divide_of_int_eq [of "- numeral a" "numeral b", where ?'a = rat] by simp

lemmas goal_defs = POST_goals_def calculate_def falsy_num_def falsy_str_def js_div_def tmb_of_def
  ACTIVITY_MULTIPLIERS_def MACRO_PRESETS_def macros_percent_of_def clamp_calories_def
  min_calories_of_def max_calories_def rate_warnings_def calorie_warnings_def bmi_warnings_def
  getBMICategory_def macros_of_def completion_day_def trunc_def Math_round_def Math_abs_def
  goal_type_of_def







lemma keto_run: "POST_goals 1717200000000 2024 keto_body = Computed keto_result"
  by (simp add: goal_defs keto_body_def keto_result_def Let_def)










text \<open>
  C9. The returned goal type. The \<open>goal_type\<close> of the response is \<open>ganhar\<close>, \<open>perder\<close> or
  \<open>manter\<close> by the sign of \<open>goal_weight_kg - weight_kg\<close>, and the \<open>goal_type\<close> field of the
  request has no influence on the response.
\<close>

theorem C9_goal_type_from_weights:
  assumes "POST_goals now yr b = Computed c"
    and "weight_kg b = Some w" and "goal_weight_kg b = Some gw"
  shows "goal_type_calc c
           = (if gw - w > 0 then ''ganhar'' else if gw - w < 0 then ''perder'' else ''manter'')
       \<and> POST_goals now yr (b\<lparr>goal_type := gt\<rparr>) = Computed c"
proof -
  from assms(1) obtain g' y' w' h' al' gw' n' where
    f: "weight_kg b = Some w'" "goal_weight_kg b = Some gw'"
    and calc: "calculate now g' (of_int yr - y') w' h' al' gw' n' (macro_focus b) = Computed c"
    by (rule post_goals_computed)
  from f assms(2-3) have eqs: "w' = w" "gw' = gw"
    by simp_all
  from calc [unfolded eqs] have "goal_type_calc c = goal_type_of (gw - w)"
    by (rule calculate_computed)
  moreover have "POST_goals now yr (b\<lparr>goal_type := gt\<rparr>) = POST_goals now yr b"
    by (simp add: POST_goals_def Let_def)
  ultimately show ?thesis
    using assms(1) by (simp add: goal_type_of_def)
qed

theorem C9_goal_type_from_weights_witness:
  "POST_goals 1717200000000 2024 keto_body = Computed keto_result
   \<and> goal_type keto_body = Some ''ganhar''
   \<and> goal_type_calc keto_result = ''ganhar''
   \<and> POST_goals 1717200000000 2024 (keto_body\<lparr>goal_type := Some ''perder''\<rparr>) = Computed keto_result"
proof -
  have f: "weight_kg keto_body = Some 70" "goal_weight_kg keto_body = Some 70.86"
    by (simp_all add: keto_body_def)
  from C9_goal_type_from_weights [OF keto_run f, of "Some ''perder''"] show ?thesis
    using keto_run by (simp add: keto_body_def)
qed



section \<open>Profile Store: write, read and the invariant of the store\<close>












section \<open>Vision Analyzer: empty answers and upstream errors\<close>

lemma starts_with_append: "starts_with s p \<longleftrightarrow> (\<exists>b. s = p @ b)"
  by (induction s p rule: starts_with.induct) auto

lemma js_includes_infix: "js_includes s p \<longleftrightarrow> (\<exists>a b. s = a @ p @ b)"
proof (induction s)
  case Nil
  then show ?case by simp
next
  case (Cons c cs)
  show ?case
  proof
    assume "js_includes (c # cs) p"
    then consider "starts_with (c # cs) p" | "js_includes cs p" by auto
    then show "\<exists>a b. c # cs = a @ p @ b"
    proof cases
      case 1
      then obtain b where "c # cs = p @ b" by (auto simp: starts_with_append)
      then have "c # cs = [] @ p @ b" by simp
      then show ?thesis by blast
    next
      case 2
      with Cons.IH obtain a b where "cs = a @ p @ b" by auto
      then have "c # cs = (c # a) @ p @ b" by simp
      then show ?thesis by blast
    qed
  next
    assume "\<exists>a b. c # cs = a @ p @ b"
    then obtain a b where ab: "c # cs = a @ p @ b" by auto
    show "js_includes (c # cs) p"
    proof (cases a)
      case Nil
      with ab have "starts_with (c # cs) p" by (auto simp: starts_with_append)
      then show ?thesis by simp
    next
      case (Cons x xs)
      with ab have "cs = xs @ p @ b" by simp
      with Cons.IH have "js_includes cs p" by auto
      then show ?thesis by simp
    qed
  qed
qed

lemma POST_analyze_empty_content:
  assumes "\<not> falsy_str image_url" and "choices r = first # rest"
    and "is_empty_content (content first)"
  shows "POST_analyze env image_url (Returned r)
           = (500, EmptyResponse (model r) (finish_reason first) (usage r))"
  using assms by (simp add: POST_analyze_def)

lemma POST_analyze_empty_content_cases:
  "is_empty_content None" "is_empty_content (Some [])" "is_empty_content (Some ''{}'')"
  "list_all is_whitespace s \<Longrightarrow> is_empty_content (Some s)"
  by (simp_all add: is_empty_content_def trim_is_empty_def)

text \<open>
  C6. An empty answer of the model is an error. The claim holds for the handler of
  \<open>part_000\<close> (\<open>POST_analyze_empty_content\<close>: status 500 with the finish reason and the usage),
  and fails for the handler of \<open>part_001\<close>: with a present image and the answer \<open>{}\<close> it
  returns the empty object with status 200, and with an absent content as well.
\<close>

theorem C6_part_001_empty_object_is_success:
  "POST_analyze_part_001 sample_env (Some ''https://example.com/meal.jpg'')
       (Returned empty_object_completion) = (200, Analysis [])
   \<and> POST_analyze_part_001 sample_env (Some ''https://example.com/meal.jpg'')
       (Returned (empty_object_completion
          \<lparr>choices := [\<lparr>content = None, finish_reason = ''length''\<rparr>]\<rparr>)) = (200, Analysis [])
   \<and> POST_analyze sample_env (Some ''https://example.com/meal.jpg'')
       (Returned empty_object_completion) = (500, EmptyResponse ''gpt-4o'' ''length'' (Some 1200))"
  by (simp add: POST_analyze_part_001_def POST_analyze_def sample_env_def
      empty_object_completion_def falsy_str_def is_empty_content_def)




end
